theory Spec2Isabelle
  imports Main
begin

section \<open>Python values\<close>

text \<open>
  The decoded query response, the request parameters and the arguments of the public
  operations are dynamically typed Python values. The JSON fragment that the revision
  object handles is modelled by \<open>pyval\<close>: a dict is an association list read with
  \<open>map_of\<close> (JSON keys are strings), a tuple is a \<open>PList\<close>, numbers are integers.
\<close>

datatype pyval =
    PNone
  | PBool bool
  | PInt int
  | PStr string
  | PList "pyval list"
  | PDict "(string \<times> pyval) list"

datatype error =
    KeyError pyval
  | IndexError
  | TypeError
  | StopIteration
  | AttributeError string
  | NonexistentRevisionError string pyval
  | PermissionsError string
  | Opaque string

text \<open>
  \<open>NonexistentRevisionError m v\<close> stands for the exception built from
  \<open>m.format(v)\<close>: the format string and its argument are kept apart, so the message is
  determined without a model of \<open>repr\<close>. \<open>Opaque\<close> is any other exception raised by a
  collaborator (transport, page, user).
\<close>

fun truthy :: "pyval \<Rightarrow> bool" where
  "truthy PNone = False"
| "truthy (PBool b) = b"
| "truthy (PInt i) = (i \<noteq> 0)"
| "truthy (PStr s) = (s \<noteq> [])"
| "truthy (PList xs) = (xs \<noteq> [])"
| "truthy (PDict d) = (d \<noteq> [])"

text \<open>
  Python's \<open>==\<close> on these values: a bool is the integer 0 or 1; lists are equal when
  they have the same length and equal elements; dicts are equal when they have the same
  keys and equal values under each key, in whatever order the keys stand; values of
  different kinds are unequal.
\<close>

fun py_eq :: "pyval \<Rightarrow> pyval \<Rightarrow> bool" where
  "py_eq (PBool a) (PInt b) = ((if a then 1 else 0) = b)"
| "py_eq (PInt a) (PBool b) = (a = (if b then 1 else 0))"
| "py_eq (PList xs) (PList ys) = list_all2 py_eq xs ys"
| "py_eq (PDict xs) (PDict ys) =
     (set (map fst xs) = set (map fst ys) \<and>
      (\<forall>(k, v) \<in> set xs. \<forall>(k', v') \<in> set ys.
          k = k' \<and> map_of xs k = Some v \<and> map_of ys k' = Some v' \<longrightarrow> py_eq v v'))"
| "py_eq a b = (a = b)"

text \<open>Indexing a sequence, \<open>xs[i]\<close>: negative indices count from the end.\<close>

definition seq_index :: "'a list \<Rightarrow> int \<Rightarrow> error + 'a" where
  "seq_index xs i =
     (if 0 \<le> i \<and> i < int (length xs) then Inr (xs ! nat i)
      else if i < 0 \<and> - int (length xs) \<le> i then Inr (xs ! nat (int (length xs) + i))
      else Inl IndexError)"

text \<open>
  The subscript \<open>obj[key]\<close>. A dict raises KeyError for a missing key and TypeError
  for an unhashable one; a list or a string takes integer indices only; nothing else is
  subscriptable.
\<close>

fun getitem :: "pyval \<Rightarrow> pyval \<Rightarrow> error + pyval" where
  "getitem (PDict d) (PStr k) =
     (case map_of d k of None \<Rightarrow> Inl (KeyError (PStr k)) | Some v \<Rightarrow> Inr v)"
| "getitem (PDict d) (PList k) = Inl TypeError"
| "getitem (PDict d) (PDict k) = Inl TypeError"
| "getitem (PDict d) k = Inl (KeyError k)"
| "getitem (PList xs) (PInt i) = seq_index xs i"
| "getitem (PList xs) (PBool b) = seq_index xs (if b then 1 else 0)"
| "getitem (PList xs) k = Inl TypeError"
| "getitem (PStr s) (PInt i) = map_sum id (\<lambda>c. PStr [c]) (seq_index s i)"
| "getitem (PStr s) (PBool b) = map_sum id (\<lambda>c. PStr [c]) (seq_index s (if b then 1 else 0))"
| "getitem (PStr s) k = Inl TypeError"
| "getitem v k = Inl TypeError"

fun substring :: "string \<Rightarrow> string \<Rightarrow> bool" where
  "substring s [] = (s = [])"
| "substring s (c # cs) = (take (length s) (c # cs) = s \<or> substring s cs)"

text \<open>The membership test \<open>key in obj\<close>.\<close>

fun contains :: "pyval \<Rightarrow> pyval \<Rightarrow> error + bool" where
  "contains (PDict d) (PStr k) = Inr (map_of d k \<noteq> None)"
| "contains (PDict d) (PList k) = Inl TypeError"
| "contains (PDict d) (PDict k) = Inl TypeError"
| "contains (PDict d) k = Inr False"
| "contains (PList xs) k = Inr (list_ex (\<lambda>x. py_eq x k) xs)"
| "contains (PStr s) (PStr k) = Inr (substring k s)"
| "contains (PStr s) k = Inl TypeError"
| "contains v k = Inl TypeError"

text \<open>The assignment \<open>d[k] = v\<close> on a dict: an existing key keeps its place.\<close>

fun setitem :: "(string \<times> pyval) list \<Rightarrow> string \<Rightarrow> pyval \<Rightarrow> (string \<times> pyval) list" where
  "setitem [] k v = [(k, v)]"
| "setitem ((k', v') # d) k v = (if k' = k then (k, v) # d else (k', v') # setitem d k v)"

section \<open>Collaborators\<close>

text \<open>
  Modelled from the spec: the client handle (the class of module \<open>api\<close>, not part of
  \<open>revision.py\<close>) is an opaque object that many entities share; two handles are equal
  when they are the same handle, so a handle is the number that identifies it.
\<close>

type_synonym api = nat

text \<open>
  Modelled from the spec: \<open>api.page\<close> and \<open>api.user\<close> (module \<open>api\<close>, not part of
  \<open>revision.py\<close>) resolve a page id or a user name into a Page or User object; they are
  cheap, non-loading constructions, so they are the constructors \<open>Page\<close> and \<open>User\<close>.
\<close>

datatype page = Page api pyval

datatype user = User api pyval

text \<open>The value of \<open>datetime.datetime\<close>: year, month, day, hour, minute, second.\<close>

datatype datetime = Datetime int int int int int int

text \<open>
  What the collaborators do is a parameter of the model. Each of them may raise, and may
  read and change its own state \<open>'c\<close> (the server, the session, the caches of pages and
  users):
  \<^item> \<open>iterator api kwargs use_defaults\<close> runs the query behind
    \<open>api.iterator(kwargs, use_defaults=...)\<close> and gives the records that the lazy
    sequence yields; \<open>call api params\<close> is \<open>api.call(params)\<close>;
  \<^item> \<open>page_title\<close>, \<open>user_name\<close> read \<open>page.title\<close> and \<open>user.name\<close>;
    \<open>page_edit p text summary minor bot force\<close> is \<open>p.edit(...)\<close>;
  \<^item> \<open>isostrptime\<close> is the timestamp parser of module \<open>utils\<close>;
  \<^item> \<open>nonexistent_is_attribute_error\<close> says whether \<open>exc.NonexistentRevisionError\<close>
    (module \<open>exceptions\<close>) is a subclass of AttributeError.
\<close>

record 'c env =
  iterator :: "api \<Rightarrow> pyval \<Rightarrow> bool \<Rightarrow> 'c \<Rightarrow> (error + pyval list) \<times> 'c"
  call :: "api \<Rightarrow> pyval \<Rightarrow> 'c \<Rightarrow> (error + pyval) \<times> 'c"
  page_title :: "page \<Rightarrow> 'c \<Rightarrow> (error + pyval) \<times> 'c"
  page_edit :: "page \<Rightarrow> pyval \<Rightarrow> pyval \<Rightarrow> pyval \<Rightarrow> pyval \<Rightarrow> pyval \<Rightarrow> 'c \<Rightarrow> (error + pyval) \<times> 'c"
  user_name :: "user \<Rightarrow> 'c \<Rightarrow> (error + pyval) \<times> 'c"
  isostrptime :: "pyval \<Rightarrow> error + datetime"
  nonexistent_is_attribute_error :: bool

text \<open>
  The world records what \<open>revision.py\<close> itself sends through the client handle: every
  query started with \<open>api.iterator\<close> and every mutating request sent with
  \<open>api.call\<close>, in order, next to the collaborators' state.
\<close>

record 'c world =
  queries :: "(api \<times> pyval \<times> bool) list"
  calls :: "(api \<times> pyval) list"
  collab :: 'c

section \<open>The Revision object\<close>

text \<open>
  A Revision holds \<open>_api\<close> and \<open>_revid\<close> from its construction; every other attribute
  exists only once \<open>__load\<close> has assigned it, so it is an option: \<open>None\<close> is the
  attribute that is not set. \<open>_prev_revision\<close> may be set to Python's \<open>None\<close>, which is
  \<open>Some None\<close>. The selector \<open>u_x\<close> is the attribute \<open>_x\<close>.
\<close>

datatype revision = RevisionObject
  (u_api: api)
  (u_revid: pyval)
  (u_page: "page option")
  (u_summary: "pyval option")
  (u_timestamp: "datetime option")
  (u_user: "user option")
  (u_is_minor: "bool option")
  (u_rvtoken: "pyval option")
  (u_prev_revision: "revision option option")
  (u_content: "pyval option")
  (u_is_deleted: "bool option")

text \<open>\<open>Revision api revid\<close> is the object that \<open>__init__\<close> leaves behind.\<close>

definition Revision :: "api \<Rightarrow> pyval \<Rightarrow> revision" where
  "Revision a i = RevisionObject a i None None None None None None None None None"

text \<open>The attribute assignments \<open>self._x = v\<close>.\<close>

fun set_page :: "page \<Rightarrow> revision \<Rightarrow> revision" where
  "set_page v (RevisionObject a i p s t u m k r c d) = RevisionObject a i (Some v) s t u m k r c d"

fun set_summary :: "pyval \<Rightarrow> revision \<Rightarrow> revision" where
  "set_summary v (RevisionObject a i p s t u m k r c d) = RevisionObject a i p (Some v) t u m k r c d"

fun set_timestamp :: "datetime \<Rightarrow> revision \<Rightarrow> revision" where
  "set_timestamp v (RevisionObject a i p s t u m k r c d) = RevisionObject a i p s (Some v) u m k r c d"

fun set_user :: "user \<Rightarrow> revision \<Rightarrow> revision" where
  "set_user v (RevisionObject a i p s t u m k r c d) = RevisionObject a i p s t (Some v) m k r c d"

fun set_is_minor :: "bool \<Rightarrow> revision \<Rightarrow> revision" where
  "set_is_minor v (RevisionObject a i p s t u m k r c d) = RevisionObject a i p s t u (Some v) k r c d"

fun set_rvtoken :: "pyval \<Rightarrow> revision \<Rightarrow> revision" where
  "set_rvtoken v (RevisionObject a i p s t u m k r c d) = RevisionObject a i p s t u m (Some v) r c d"

fun set_prev_revision :: "revision option \<Rightarrow> revision \<Rightarrow> revision" where
  "set_prev_revision v (RevisionObject a i p s t u m k r c d) = RevisionObject a i p s t u m k (Some v) c d"

fun set_content :: "pyval \<Rightarrow> revision \<Rightarrow> revision" where
  "set_content v (RevisionObject a i p s t u m k r c d) = RevisionObject a i p s t u m k r (Some v) d"

fun set_is_deleted :: "bool \<Rightarrow> revision \<Rightarrow> revision" where
  "set_is_deleted v (RevisionObject a i p s t u m k r c d) = RevisionObject a i p s t u m k r c (Some v)"

subsection \<open>Equality\<close>

text \<open>
  \<open>__eq__\<close> and \<open>__ne__\<close> for another Revision: \<open>other._api == self._api\<close> compares
  the handles, \<open>other.revid == self.revid\<close> the ids. The \<open>revid\<close> accessor finds
  \<open>_revid\<close> set on every Revision, so it returns it without loading.
\<close>

definition revision_eq :: "revision \<Rightarrow> revision \<Rightarrow> bool" where
  "revision_eq self other = (u_api other = u_api self \<and> py_eq (u_revid other) (u_revid self))"

definition revision_ne :: "revision \<Rightarrow> revision \<Rightarrow> bool" where
  "revision_ne self other = (u_api other \<noteq> u_api self \<or> \<not> py_eq (u_revid other) (u_revid self))"

subsection \<open>Loading\<close>

text \<open>The query parameters built by \<open>__load\<close>.\<close>

definition query_kwargs :: "revision \<Rightarrow> pyval" where
  "query_kwargs self = PDict
     [(''revids'', u_revid self),
      (''prop'', PStr ''revisions''),
      (''rvprop'', PList [PStr ''ids'', PStr ''flags'', PStr ''timestamp'', PStr ''user'',
                          PStr ''comment'', PStr ''content'']),
      (''rvtoken'', PStr ''rollback'')]"

text \<open>
  \<open>next(i(kwargs, use_defaults=False))\<close>: one query is sent; the first record of the
  sequence is the result, and an empty sequence raises StopIteration.
\<close>

definition next_record :: "'c env \<Rightarrow> revision \<Rightarrow> 'c world \<Rightarrow> (error + pyval) \<times> 'c world" where
  "next_record env self w =
     (case iterator env (u_api self) (query_kwargs self) False (collab w) of
        (r, c') \<Rightarrow>
          let w' = w\<lparr>queries := queries w @ [(u_api self, query_kwargs self, False)],
                     collab := c'\<rparr>
          in (case r of
                Inl e \<Rightarrow> (Inl e, w')
              | Inr [] \<Rightarrow> (Inl StopIteration, w')
              | Inr (x # xs) \<Rightarrow> (Inr x, w')))"

text \<open>\<open>res = res or next(...)\<close>: the query runs only when the given \<open>res\<close> is falsy.\<close>

definition load_res :: "'c env \<Rightarrow> revision \<Rightarrow> pyval \<Rightarrow> 'c world \<Rightarrow> (error + pyval) \<times> 'c world" where
  "load_res env self res w = (if truthy res then (Inr res, w) else next_record env self w)"

text \<open>
  \<open>raising x s k\<close> runs a step of a method that can raise: an exception \<open>Inl e\<close>
  ends the method there and leaves the object \<open>s\<close> as assigned so far; a value goes on
  to the rest \<open>k\<close> of the method.
\<close>

definition raising ::
  "error + 'a \<Rightarrow> revision \<Rightarrow> ('a \<Rightarrow> (error + unit) \<times> revision) \<Rightarrow> (error + unit) \<times> revision" where
  "raising x s k = (case x of Inl e \<Rightarrow> (Inl e, s) | Inr v \<Rightarrow> k v)"

definition is_KeyError :: "error \<Rightarrow> bool" where
  "is_KeyError e = (case e of KeyError k \<Rightarrow> True | _ \<Rightarrow> False)"

text \<open>
  The rest of \<open>__load\<close>: the assignments from the record, in the order of the source. An
  exception leaves the object with the attributes assigned before it. The two
  \<open>try\<close> blocks catch KeyError only.
\<close>

definition load_fields :: "'c env \<Rightarrow> revision \<Rightarrow> pyval \<Rightarrow> (error + unit) \<times> revision" where
  "load_fields env self res =
     raising (getitem res (PStr ''pageid'')) self (\<lambda>pid.
     let s1 = set_page (Page (u_api self) pid) self in
     raising (getitem res (PStr ''revisions'')) s1 (\<lambda>revs.
     raising (getitem revs (PInt 0)) s1 (\<lambda>r.
     raising (getitem r (PStr ''comment'')) s1 (\<lambda>cmt.
     let s2 = set_summary cmt s1 in
     raising (getitem r (PStr ''timestamp'')) s2 (\<lambda>ts.
     raising (isostrptime env ts) s2 (\<lambda>t.
     let s3 = set_timestamp t s2 in
     raising (getitem r (PStr ''user'')) s3 (\<lambda>un.
     let s4 = set_user (User (u_api self) un) s3 in
     raising (contains r (PStr ''minor'')) s4 (\<lambda>m.
     let s5 = set_is_minor m s4 in
     raising (case getitem r (PStr ''rollbacktoken'') of
                Inr tok \<Rightarrow> Inr (set_rvtoken tok s5)
              | Inl e \<Rightarrow> if is_KeyError e then Inr s5 else Inl e) s5 (\<lambda>s6.
     raising (getitem r (PStr ''parentid'')) s6 (\<lambda>par.
     let s7 = set_prev_revision
                (if truthy par then Some (Revision (u_api self) par) else None) s6 in
     (case getitem r (PStr ''*'') of
        Inr txt \<Rightarrow> (Inr (), set_is_deleted False (set_content txt s7))
      | Inl e \<Rightarrow> if is_KeyError e then (Inr (), set_is_deleted True s7)
                 else (Inl e, s7))))))))))))"

definition load :: "'c env \<Rightarrow> revision \<Rightarrow> pyval \<Rightarrow> 'c world \<Rightarrow> (error + unit) \<times> revision \<times> 'c world" where
  "load env self res w =
     (case load_res env self res w of
        (Inl e, w') \<Rightarrow> (Inl e, self, w')
      | (Inr res', w') \<Rightarrow> (case load_fields env self res' of (r, self') \<Rightarrow> (r, self', w')))"

text \<open>\<open>load_attributes(res=None)\<close>; the call without an argument passes \<open>PNone\<close>.\<close>

definition load_attributes :: "'c env \<Rightarrow> revision \<Rightarrow> pyval \<Rightarrow> 'c world \<Rightarrow> (error + unit) \<times> revision \<times> 'c world" where
  "load_attributes env self res w = load env self res w"

subsection \<open>The lazy accessors\<close>

text \<open>
  Modelled from the spec: \<open>blah_decorate\<close> (module \<open>utils\<close>, not part of
  \<open>revision.py\<close>) turns a method that names a backing attribute into the accessor of
  that attribute. The accessor returns the attribute when it is set; otherwise it calls
  the object's load operation without arguments and looks again: it returns the attribute
  when the load has set it, and raises the given error, built from the message and the
  object's identity, when it is still missing. An exception of the load itself is not
  caught. Here \<open>ld\<close> is the object's \<open>load_attributes()\<close>, \<open>meth\<close> reads the backing
  attribute and \<open>name\<close> the identity.
\<close>

definition blah_decorate ::
  "('o \<Rightarrow> 'w \<Rightarrow> (error + unit) \<times> 'o \<times> 'w) \<Rightarrow> ('o \<Rightarrow> 'a option) \<Rightarrow> string \<Rightarrow> ('o \<Rightarrow> pyval) \<Rightarrow>
   (string \<Rightarrow> pyval \<Rightarrow> error) \<Rightarrow> 'o \<Rightarrow> 'w \<Rightarrow> (error + 'a) \<times> 'o \<times> 'w" where
  "blah_decorate ld meth message name err self w =
     (case meth self of
        Some v \<Rightarrow> (Inr v, self, w)
      | None \<Rightarrow>
          (case ld self w of
             (Inl e, self', w') \<Rightarrow> (Inl e, self', w')
           | (Inr u, self', w') \<Rightarrow>
               (case meth self' of
                  Some v \<Rightarrow> (Inr v, self', w')
                | None \<Rightarrow> (Inl (err message (name self')), self', w'))))"

definition decorate ::
  "'c env \<Rightarrow> (revision \<Rightarrow> 'a option) \<Rightarrow> revision \<Rightarrow> 'c world \<Rightarrow> (error + 'a) \<times> revision \<times> 'c world" where
  "decorate env meth =
     blah_decorate (\<lambda>self w. load_attributes env self PNone w) meth
       ''Revision {0!r} does not exist'' u_revid NonexistentRevisionError"

definition revid :: "'c env \<Rightarrow> revision \<Rightarrow> 'c world \<Rightarrow> (error + pyval) \<times> revision \<times> 'c world" where
  "revid env = decorate env (\<lambda>self. Some (u_revid self))"

definition rvtoken :: "'c env \<Rightarrow> revision \<Rightarrow> 'c world \<Rightarrow> (error + pyval) \<times> revision \<times> 'c world" where
  "rvtoken env = decorate env u_rvtoken"

definition page :: "'c env \<Rightarrow> revision \<Rightarrow> 'c world \<Rightarrow> (error + page) \<times> revision \<times> 'c world" where
  "page env = decorate env u_page"

definition summary :: "'c env \<Rightarrow> revision \<Rightarrow> 'c world \<Rightarrow> (error + pyval) \<times> revision \<times> 'c world" where
  "summary env = decorate env u_summary"

definition timestamp :: "'c env \<Rightarrow> revision \<Rightarrow> 'c world \<Rightarrow> (error + datetime) \<times> revision \<times> 'c world" where
  "timestamp env = decorate env u_timestamp"

definition user :: "'c env \<Rightarrow> revision \<Rightarrow> 'c world \<Rightarrow> (error + user) \<times> revision \<times> 'c world" where
  "user env = decorate env u_user"

definition is_minor :: "'c env \<Rightarrow> revision \<Rightarrow> 'c world \<Rightarrow> (error + bool) \<times> revision \<times> 'c world" where
  "is_minor env = decorate env u_is_minor"

definition prev_revision ::
  "'c env \<Rightarrow> revision \<Rightarrow> 'c world \<Rightarrow> (error + revision option) \<times> revision \<times> 'c world" where
  "prev_revision env = decorate env u_prev_revision"

definition content :: "'c env \<Rightarrow> revision \<Rightarrow> 'c world \<Rightarrow> (error + pyval) \<times> revision \<times> 'c world" where
  "content env = decorate env u_content"

definition is_deleted :: "'c env \<Rightarrow> revision \<Rightarrow> 'c world \<Rightarrow> (error + bool) \<times> revision \<times> 'c world" where
  "is_deleted env = decorate env u_is_deleted"

subsection \<open>Operations\<close>

text \<open>
  A method body threads the object and the world through its steps: \<open>thread x k\<close>
  stops at an exception of the step \<open>x\<close> and otherwise hands its value and the state it
  left to the rest \<open>k\<close>. \<open>in_collab f\<close> runs a collaborator on its own state;
  \<open>send_call\<close> is \<open>self._api.call(params)\<close>, which the world records.
\<close>

definition thread :: "(error + 'a) \<times> 's \<Rightarrow> ('a \<Rightarrow> 's \<Rightarrow> (error + 'b) \<times> 's) \<Rightarrow> (error + 'b) \<times> 's" where
  "thread x k = (case x of (Inl e, s) \<Rightarrow> (Inl e, s) | (Inr v, s) \<Rightarrow> k v s)"

definition in_collab ::
  "('c \<Rightarrow> (error + 'a) \<times> 'c) \<Rightarrow> revision \<times> 'c world \<Rightarrow> (error + 'a) \<times> revision \<times> 'c world" where
  "in_collab f = (\<lambda>(s, w). case f (collab w) of (r, c') \<Rightarrow> (r, s, w\<lparr>collab := c'\<rparr>))"

definition send_call ::
  "'c env \<Rightarrow> api \<Rightarrow> pyval \<Rightarrow> revision \<times> 'c world \<Rightarrow> (error + pyval) \<times> revision \<times> 'c world" where
  "send_call env a params = (\<lambda>(s, w). case call env a params (collab w) of
     (r, c') \<Rightarrow> (r, s, w\<lparr>calls := calls w @ [(a, params)], collab := c'\<rparr>))"

text \<open>\<open>except AttributeError\<close>: the exceptions that the clause catches.\<close>

definition is_AttributeError :: "'c env \<Rightarrow> error \<Rightarrow> bool" where
  "is_AttributeError env e =
     (case e of
        AttributeError m \<Rightarrow> True
      | NonexistentRevisionError m v \<Rightarrow> nonexistent_is_attribute_error env
      | _ \<Rightarrow> False)"

text \<open>
  \<open>restore\<close> (the parameters \<open>summary\<close> and \<open>bot\<close> are \<open>summ\<close> and \<open>isbot\<close>
  here): \<open>self.page.edit\<close> is evaluated first, then the argument
  \<open>self.content\<close>, then the edit runs.
\<close>

definition restore ::
  "'c env \<Rightarrow> revision \<Rightarrow> pyval \<Rightarrow> pyval \<Rightarrow> pyval \<Rightarrow> pyval \<Rightarrow> 'c world \<Rightarrow>
   (error + pyval) \<times> revision \<times> 'c world" where
  "restore env self summ minor isbot force w =
     thread (page env self w) (\<lambda>p (s, w).
     thread (content env s w) (\<lambda>txt (s, w).
     in_collab (page_edit env p txt summ minor isbot force) (s, w)))"

text \<open>
  \<open>rollback\<close>: the dict display reads \<open>self.page.title\<close>, \<open>self.user.name\<close> and
  \<open>self.rvtoken\<close> in this order, outside the \<open>try\<close>; the \<open>try\<close> block reads
  \<open>self.rvtoken\<close> again and turns an AttributeError into the PermissionsError.
\<close>

definition rollback ::
  "'c env \<Rightarrow> revision \<Rightarrow> pyval \<Rightarrow> pyval \<Rightarrow> 'c world \<Rightarrow> (error + pyval) \<times> revision \<times> 'c world" where
  "rollback env self summ isbot w =
     thread (page env self w) (\<lambda>p (s, w).
     thread (in_collab (page_title env p) (s, w)) (\<lambda>t (s, w).
     thread (user env s w) (\<lambda>u (s, w).
     thread (in_collab (user_name env u) (s, w)) (\<lambda>n (s, w).
     thread (rvtoken env s w) (\<lambda>tok (s, w).
     let params = [(''title'', t), (''user'', n), (''token'', tok),
                   (''action'', PStr ''rollback'')] in
     thread (case rvtoken env s w of
               (Inl e, s', w') \<Rightarrow>
                 (Inl (if is_AttributeError env e
                       then PermissionsError ''You do not have the rollback permission''
                       else e), s', w')
             | (Inr tok', s', w') \<Rightarrow> (Inr tok', s', w')) (\<lambda>tok' (s, w).
     let params1 = setitem params ''token'' tok';
         params2 = (if summ \<noteq> PNone then setitem params1 ''summary'' summ else params1);
         params3 = (if truthy isbot then setitem params2 ''markbot'' (PInt 1) else params2)
     in send_call env (u_api s) (PDict params3) (s, w)))))))"

subsection \<open>Reading attributes in sequence\<close>

text \<open>
  The lazily loaded attributes by name. \<open>attr_set a self\<close> says that the backing
  attribute is set on the object; \<open>access\<close> runs the accessor and keeps whether it
  raised; \<open>accesses\<close> is a caller that reads the listed attributes one after the other,
  whatever each access returns or raises.
\<close>

datatype attr =
  A_rvtoken | A_page | A_summary | A_timestamp | A_user | A_is_minor | A_prev_revision |
  A_content | A_is_deleted

fun attr_set :: "attr \<Rightarrow> revision \<Rightarrow> bool" where
  "attr_set A_rvtoken self = (u_rvtoken self \<noteq> None)"
| "attr_set A_page self = (u_page self \<noteq> None)"
| "attr_set A_summary self = (u_summary self \<noteq> None)"
| "attr_set A_timestamp self = (u_timestamp self \<noteq> None)"
| "attr_set A_user self = (u_user self \<noteq> None)"
| "attr_set A_is_minor self = (u_is_minor self \<noteq> None)"
| "attr_set A_prev_revision self = (u_prev_revision self \<noteq> None)"
| "attr_set A_content self = (u_content self \<noteq> None)"
| "attr_set A_is_deleted self = (u_is_deleted self \<noteq> None)"

definition outcome :: "(error + 'a) \<times> 's \<Rightarrow> error option \<times> 's" where
  "outcome x = (case x of (Inl e, s) \<Rightarrow> (Some e, s) | (Inr v, s) \<Rightarrow> (None, s))"

fun access :: "'c env \<Rightarrow> attr \<Rightarrow> revision \<Rightarrow> 'c world \<Rightarrow> error option \<times> revision \<times> 'c world" where
  "access env A_rvtoken self w = outcome (rvtoken env self w)"
| "access env A_page self w = outcome (page env self w)"
| "access env A_summary self w = outcome (summary env self w)"
| "access env A_timestamp self w = outcome (timestamp env self w)"
| "access env A_user self w = outcome (user env self w)"
| "access env A_is_minor self w = outcome (is_minor env self w)"
| "access env A_prev_revision self w = outcome (prev_revision env self w)"
| "access env A_content self w = outcome (content env self w)"
| "access env A_is_deleted self w = outcome (is_deleted env self w)"

fun accesses :: "'c env \<Rightarrow> attr list \<Rightarrow> revision \<Rightarrow> 'c world \<Rightarrow> error option list \<times> revision \<times> 'c world" where
  "accesses env [] self w = ([], self, w)"
| "accesses env (a # as) self w =
     (case access env a self w of
        (r, self', w') \<Rightarrow> (case accesses env as self' w' of (rs, s, v) \<Rightarrow> (r # rs, s, v)))"

section \<open>Test data and auxiliary definitions\<close>

text \<open>
  The definitions of this section are not part of \<open>revision.py\<close>. \<open>revision_record\<close>
  names the record that \<open>__load\<close> decodes, \<open>res['revisions'][0]\<close>.
  \<open>spec_rollback_params\<close> is the request of \<open>rollback\<close> as the specification words
  it: title, user, token and action, the summary when it is not null, the bot mark when
  the flag is set. \<open>assigned\<close> is the object after all assignments of \<open>__load\<close>. The
  rest is a mock transport that answers every query with the same records, a world in
  which nothing has been sent, some responses, and the loads that the instances below
  start from.
\<close>

definition revision_record :: "pyval \<Rightarrow> error + pyval" where
  "revision_record res =
     (case getitem res (PStr ''revisions'') of Inl e \<Rightarrow> Inl e | Inr revs \<Rightarrow> getitem revs (PInt 0))"

definition spec_rollback_params :: "pyval \<Rightarrow> pyval \<Rightarrow> pyval \<Rightarrow> pyval \<Rightarrow> pyval \<Rightarrow> (string \<times> pyval) list" where
  "spec_rollback_params t n tok summ isbot =
     [(''title'', t), (''user'', n), (''token'', tok), (''action'', PStr ''rollback'')] @
     (if summ \<noteq> PNone then [(''summary'', summ)] else []) @
     (if truthy isbot then [(''markbot'', PInt 1)] else [])"

definition mock_env :: "bool \<Rightarrow> pyval list \<Rightarrow> unit env" where
  "mock_env b recs =
     \<lparr> iterator = (\<lambda>a kw ud c. (Inr recs, c)),
       call = (\<lambda>a params c. (Inr (PDict [(''rollback'', params)]), c)),
       page_title = (\<lambda>p c. (Inr (PStr ''Foo''), c)),
       page_edit = (\<lambda>p txt s m bt f c. (Inr (PDict [(''edit'', txt)]), c)),
       user_name = (\<lambda>u c. case u of User a n \<Rightarrow> (Inr n, c)),
       isostrptime = (\<lambda>v. case v of PStr s \<Rightarrow> Inr (Datetime 2013 1 1 0 0 0) | _ \<Rightarrow> Inl TypeError),
       nonexistent_is_attribute_error = b \<rparr>"

definition world0 :: "unit world" where
  "world0 = \<lparr> queries = [], calls = [], collab = () \<rparr>"

definition rec_text :: pyval where
  "rec_text = PDict [(''pageid'', PInt 11), (''revisions'', PList [PDict
     [(''comment'', PStr ''c''), (''timestamp'', PStr ''2013-01-01T00:00:00Z''),
      (''user'', PStr ''Bar''), (''parentid'', PInt 4), (''*'', PStr ''text'')]])]"

definition rec_token :: pyval where
  "rec_token = PDict [(''pageid'', PInt 11), (''revisions'', PList [PDict
     [(''comment'', PStr ''c''), (''timestamp'', PStr ''2013-01-01T00:00:00Z''),
      (''user'', PStr ''Bar''), (''rollbacktoken'', PStr ''TOK''), (''parentid'', PInt 0),
      (''*'', PStr ''text'')]])]"

definition rec_deleted :: pyval where
  "rec_deleted = PDict [(''pageid'', PInt 11), (''revisions'', PList [PDict
     [(''comment'', PStr ''c''), (''timestamp'', PStr ''2013-01-01T00:00:00Z''),
      (''user'', PStr ''Bar''), (''parentid'', PInt 4)]])]"


definition rec_no_revisions :: pyval where
  "rec_no_revisions = PDict [(''pageid'', PInt 11)]"

definition all_attrs :: "attr list" where
  "all_attrs = [A_rvtoken, A_page, A_summary, A_timestamp, A_user, A_is_minor,
                A_prev_revision, A_content, A_is_deleted]"

definition assigned ::
  "revision \<Rightarrow> pyval \<Rightarrow> pyval \<Rightarrow> datetime \<Rightarrow> pyval \<Rightarrow> bool \<Rightarrow> pyval \<Rightarrow> pyval \<Rightarrow> revision" where
  "assigned self pid cmt t un m r par =
     (let s5 = set_is_minor m (set_user (User (u_api self) un) (set_timestamp t
                 (set_summary cmt (set_page (Page (u_api self) pid) self))));
          s6 = (case getitem r (PStr ''rollbacktoken'') of
                  Inr tok \<Rightarrow> set_rvtoken tok s5 | Inl e \<Rightarrow> s5);
          s7 = set_prev_revision
                 (if truthy par then Some (Revision (u_api self) par) else None) s6
      in case getitem r (PStr ''*'') of
           Inr txt \<Rightarrow> set_is_deleted False (set_content txt s7)
         | Inl e \<Rightarrow> set_is_deleted True s7)"

definition reload_first :: "(error + unit) \<times> revision \<times> unit world" where
  "reload_first = load_attributes (mock_env False [rec_deleted]) (Revision 2 (PInt 7)) rec_text world0"

definition reload_second :: "(error + unit) \<times> revision \<times> unit world" where
  "reload_second =
     load_attributes (mock_env False [rec_deleted]) (fst (snd reload_first)) rec_deleted
       (snd (snd reload_first))"


definition deleted_load :: "(error + unit) \<times> revision \<times> unit world" where
  "deleted_load =
     load_attributes (mock_env False [rec_deleted]) (Revision 2 (PInt 7)) PNone world0"

definition text_load :: "(error + unit) \<times> revision \<times> unit world" where
  "text_load =
     load_attributes (mock_env False [rec_text]) (Revision 2 (PInt 7)) PNone world0"

definition token_load :: "(error + unit) \<times> revision \<times> unit world" where
  "token_load =
     load_attributes (mock_env False [rec_token]) (Revision 2 (PInt 7)) PNone world0"

definition rec_empty_revisions :: pyval where
  "rec_empty_revisions = PDict [(''pageid'', PInt 11), (''revisions'', PList [])]"

section \<open>Auxiliary facts\<close>

lemma set_page_sel [simp]:
  "u_api (set_page v s) = u_api s" "u_revid (set_page v s) = u_revid s"
  "u_page (set_page v s) = Some v" "u_summary (set_page v s) = u_summary s"
  "u_timestamp (set_page v s) = u_timestamp s" "u_user (set_page v s) = u_user s"
  "u_is_minor (set_page v s) = u_is_minor s" "u_rvtoken (set_page v s) = u_rvtoken s"
  "u_prev_revision (set_page v s) = u_prev_revision s" "u_content (set_page v s) = u_content s"
  "u_is_deleted (set_page v s) = u_is_deleted s"
  by (cases s; simp)+

lemma set_summary_sel [simp]:
  "u_api (set_summary v s) = u_api s" "u_revid (set_summary v s) = u_revid s"
  "u_page (set_summary v s) = u_page s" "u_summary (set_summary v s) = Some v"
  "u_timestamp (set_summary v s) = u_timestamp s" "u_user (set_summary v s) = u_user s"
  "u_is_minor (set_summary v s) = u_is_minor s" "u_rvtoken (set_summary v s) = u_rvtoken s"
  "u_prev_revision (set_summary v s) = u_prev_revision s" "u_content (set_summary v s) = u_content s"
  "u_is_deleted (set_summary v s) = u_is_deleted s"
  by (cases s; simp)+

lemma set_timestamp_sel [simp]:
  "u_api (set_timestamp v s) = u_api s" "u_revid (set_timestamp v s) = u_revid s"
  "u_page (set_timestamp v s) = u_page s" "u_summary (set_timestamp v s) = u_summary s"
  "u_timestamp (set_timestamp v s) = Some v" "u_user (set_timestamp v s) = u_user s"
  "u_is_minor (set_timestamp v s) = u_is_minor s" "u_rvtoken (set_timestamp v s) = u_rvtoken s"
  "u_prev_revision (set_timestamp v s) = u_prev_revision s" "u_content (set_timestamp v s) = u_content s"
  "u_is_deleted (set_timestamp v s) = u_is_deleted s"
  by (cases s; simp)+

lemma set_user_sel [simp]:
  "u_api (set_user v s) = u_api s" "u_revid (set_user v s) = u_revid s"
  "u_page (set_user v s) = u_page s" "u_summary (set_user v s) = u_summary s"
  "u_timestamp (set_user v s) = u_timestamp s" "u_user (set_user v s) = Some v"
  "u_is_minor (set_user v s) = u_is_minor s" "u_rvtoken (set_user v s) = u_rvtoken s"
  "u_prev_revision (set_user v s) = u_prev_revision s" "u_content (set_user v s) = u_content s"
  "u_is_deleted (set_user v s) = u_is_deleted s"
  by (cases s; simp)+

lemma set_is_minor_sel [simp]:
  "u_api (set_is_minor v s) = u_api s" "u_revid (set_is_minor v s) = u_revid s"
  "u_page (set_is_minor v s) = u_page s" "u_summary (set_is_minor v s) = u_summary s"
  "u_timestamp (set_is_minor v s) = u_timestamp s" "u_user (set_is_minor v s) = u_user s"
  "u_is_minor (set_is_minor v s) = Some v" "u_rvtoken (set_is_minor v s) = u_rvtoken s"
  "u_prev_revision (set_is_minor v s) = u_prev_revision s" "u_content (set_is_minor v s) = u_content s"
  "u_is_deleted (set_is_minor v s) = u_is_deleted s"
  by (cases s; simp)+

lemma set_rvtoken_sel [simp]:
  "u_api (set_rvtoken v s) = u_api s" "u_revid (set_rvtoken v s) = u_revid s"
  "u_page (set_rvtoken v s) = u_page s" "u_summary (set_rvtoken v s) = u_summary s"
  "u_timestamp (set_rvtoken v s) = u_timestamp s" "u_user (set_rvtoken v s) = u_user s"
  "u_is_minor (set_rvtoken v s) = u_is_minor s" "u_rvtoken (set_rvtoken v s) = Some v"
  "u_prev_revision (set_rvtoken v s) = u_prev_revision s" "u_content (set_rvtoken v s) = u_content s"
  "u_is_deleted (set_rvtoken v s) = u_is_deleted s"
  by (cases s; simp)+

lemma set_prev_revision_sel [simp]:
  "u_api (set_prev_revision v s) = u_api s" "u_revid (set_prev_revision v s) = u_revid s"
  "u_page (set_prev_revision v s) = u_page s" "u_summary (set_prev_revision v s) = u_summary s"
  "u_timestamp (set_prev_revision v s) = u_timestamp s" "u_user (set_prev_revision v s) = u_user s"
  "u_is_minor (set_prev_revision v s) = u_is_minor s" "u_rvtoken (set_prev_revision v s) = u_rvtoken s"
  "u_prev_revision (set_prev_revision v s) = Some v" "u_content (set_prev_revision v s) = u_content s"
  "u_is_deleted (set_prev_revision v s) = u_is_deleted s"
  by (cases s; simp)+

lemma set_content_sel [simp]:
  "u_api (set_content v s) = u_api s" "u_revid (set_content v s) = u_revid s"
  "u_page (set_content v s) = u_page s" "u_summary (set_content v s) = u_summary s"
  "u_timestamp (set_content v s) = u_timestamp s" "u_user (set_content v s) = u_user s"
  "u_is_minor (set_content v s) = u_is_minor s" "u_rvtoken (set_content v s) = u_rvtoken s"
  "u_prev_revision (set_content v s) = u_prev_revision s" "u_content (set_content v s) = Some v"
  "u_is_deleted (set_content v s) = u_is_deleted s"
  by (cases s; simp)+

lemma set_is_deleted_sel [simp]:
  "u_api (set_is_deleted v s) = u_api s" "u_revid (set_is_deleted v s) = u_revid s"
  "u_page (set_is_deleted v s) = u_page s" "u_summary (set_is_deleted v s) = u_summary s"
  "u_timestamp (set_is_deleted v s) = u_timestamp s" "u_user (set_is_deleted v s) = u_user s"
  "u_is_minor (set_is_deleted v s) = u_is_minor s" "u_rvtoken (set_is_deleted v s) = u_rvtoken s"
  "u_prev_revision (set_is_deleted v s) = u_prev_revision s" "u_content (set_is_deleted v s) = u_content s"
  "u_is_deleted (set_is_deleted v s) = Some v"
  by (cases s; simp)+

lemma ex_bool_simps [simp]: "\<exists>y::bool. y" "\<exists>y::bool. \<not> y"
  by blast+

lemma raising_Inr: "raising x s k = (Inr u, s') \<Longrightarrow> \<exists>v. x = Inr v \<and> k v = (Inr u, s')"
  by (cases x) (simp_all add: raising_def)


lemma load_fields_Inr:
  assumes "load_fields env self res = (Inr u, self')"
  shows "\<exists>pid revs r cmt ts t un m par.
     getitem res (PStr ''pageid'') = Inr pid \<and>
     getitem res (PStr ''revisions'') = Inr revs \<and>
     getitem revs (PInt 0) = Inr r \<and>
     getitem r (PStr ''comment'') = Inr cmt \<and>
     getitem r (PStr ''timestamp'') = Inr ts \<and>
     isostrptime env ts = Inr t \<and>
     getitem r (PStr ''user'') = Inr un \<and>
     contains r (PStr ''minor'') = Inr m \<and>
     getitem r (PStr ''parentid'') = Inr par \<and>
     self' = assigned self pid cmt t un m r par"
  using assms unfolding load_fields_def Let_def assigned_def
  by (auto dest!: raising_Inr split: sum.splits if_splits)

lemma load_fields_InrE:
  assumes "load_fields env self res = (Inr u, self')"
  obtains pid r cmt t un m par where
    "revision_record res = Inr r" "getitem r (PStr ''parentid'') = Inr par"
    "self' = assigned self pid cmt t un m r par"
proof -
  from load_fields_Inr [OF assms] obtain pid revs r cmt ts t un m par where
    "getitem res (PStr ''revisions'') = Inr revs" "getitem revs (PInt 0) = Inr r"
    "getitem r (PStr ''parentid'') = Inr par" "self' = assigned self pid cmt t un m r par"
    by blast
  then show thesis
    using that [of r par pid cmt t un m] by (simp add: revision_record_def)
qed

lemma assigned_sel:
  "u_api (assigned self pid cmt t un m r par) = u_api self"
  "u_revid (assigned self pid cmt t un m r par) = u_revid self"
  "u_page (assigned self pid cmt t un m r par) = Some (Page (u_api self) pid)"
  "u_summary (assigned self pid cmt t un m r par) = Some cmt"
  "u_timestamp (assigned self pid cmt t un m r par) = Some t"
  "u_user (assigned self pid cmt t un m r par) = Some (User (u_api self) un)"
  "u_is_minor (assigned self pid cmt t un m r par) = Some m"
  "u_rvtoken (assigned self pid cmt t un m r par) =
     (case getitem r (PStr ''rollbacktoken'') of Inr tok \<Rightarrow> Some tok | Inl e \<Rightarrow> u_rvtoken self)"
  "u_prev_revision (assigned self pid cmt t un m r par) =
     Some (if truthy par then Some (Revision (u_api self) par) else None)"
  "u_content (assigned self pid cmt t un m r par) =
     (case getitem r (PStr ''*'') of Inr txt \<Rightarrow> Some txt | Inl e \<Rightarrow> u_content self)"
  "u_is_deleted (assigned self pid cmt t un m r par) =
     (case getitem r (PStr ''*'') of Inr txt \<Rightarrow> Some False | Inl e \<Rightarrow> Some True)"
  by (simp_all add: assigned_def Let_def split: sum.split)




lemma Revision_sel [simp]:
  "u_api (Revision a i) = a" "u_revid (Revision a i) = i" "u_page (Revision a i) = None"
  "u_summary (Revision a i) = None" "u_timestamp (Revision a i) = None"
  "u_user (Revision a i) = None" "u_is_minor (Revision a i) = None"
  "u_rvtoken (Revision a i) = None" "u_prev_revision (Revision a i) = None"
  "u_content (Revision a i) = None" "u_is_deleted (Revision a i) = None"
  by (simp_all add: Revision_def)

lemma next_record_world:
  "calls (snd (next_record env self w)) = calls w"
  "queries (snd (next_record env self w)) = queries w @ [(u_api self, query_kwargs self, False)]"
  by (auto simp: next_record_def Let_def split: prod.splits sum.splits list.splits)

lemma load_res_world:
  "calls (snd (load_res env self res w)) = calls w"
  "queries (snd (load_res env self res w)) =
     (if truthy res then queries w else queries w @ [(u_api self, query_kwargs self, False)])"
  by (simp_all add: load_res_def next_record_world)

lemma load_attributes_snd:
  "snd (snd (load_attributes env self res w)) = snd (load_res env self res w)"
  by (auto simp: load_attributes_def load_def split: prod.splits sum.splits)

lemma load_attributes_world:
  "calls (snd (snd (load_attributes env self res w))) = calls w"
  "queries (snd (snd (load_attributes env self res w))) =
     (if truthy res then queries w else queries w @ [(u_api self, query_kwargs self, False)])"
  by (simp_all add: load_attributes_snd load_res_world)

lemma load_attributes_Inr:
  "load_attributes env self res w = (Inr u, self', w') \<Longrightarrow>
     \<exists>rec. load_res env self res w = (Inr rec, w') \<and> load_fields env self rec = (Inr u, self')"
  by (auto simp: load_attributes_def load_def split: prod.splits sum.splits)


lemma load_attributes_falsy:
  "\<not> truthy res \<Longrightarrow> load_attributes env self res w = load_attributes env self PNone w"
  by (simp add: load_attributes_def load_def load_res_def)

lemma decorate_cached:
  "meth self = Some v \<Longrightarrow> decorate env meth self w = (Inr v, self, w)"
  by (simp add: decorate_def blah_decorate_def)

lemma decorate_missing:
  "meth self = None \<Longrightarrow> decorate env meth self w =
     (case load_attributes env self PNone w of
        (Inl e, s, v) \<Rightarrow> (Inl e, s, v)
      | (Inr u, s, v) \<Rightarrow>
          (case meth s of
             Some x \<Rightarrow> (Inr x, s, v)
           | None \<Rightarrow> (Inl (NonexistentRevisionError ''Revision {0!r} does not exist'' (u_revid s)),
                       s, v)))"
  by (simp add: decorate_def blah_decorate_def)

lemma decorate_world:
  "calls (snd (snd (decorate env meth self w))) = calls w"
  "queries (snd (snd (decorate env meth self w))) =
     (if meth self = None
      then queries w @ [(u_api self, query_kwargs self, False)] else queries w)"
proof -
  have "snd (snd (decorate env meth self w)) =
        (if meth self = None then snd (snd (load_attributes env self PNone w)) else w)"
    by (cases "meth self")
       (auto simp: decorate_missing decorate_cached split: prod.splits sum.splits option.splits)
  then show "calls (snd (snd (decorate env meth self w))) = calls w"
    and "queries (snd (snd (decorate env meth self w))) =
     (if meth self = None
      then queries w @ [(u_api self, query_kwargs self, False)] else queries w)"
    by (simp_all add: load_attributes_world)
qed

lemmas model_defs =
  load_attributes_def load_def load_res_def next_record_def load_fields_def raising_def
  revision_record_def mock_env_def world0_def Revision_def seq_index_def is_KeyError_def
  query_kwargs_def decorate_def blah_decorate_def thread_def in_collab_def send_call_def
  outcome_def Let_def

lemma reload_first_value:
  "reload_first =
     (Inr (),
      RevisionObject 2 (PInt 7) (Some (Page 2 (PInt 11))) (Some (PStr ''c''))
        (Some (Datetime 2013 1 1 0 0 0)) (Some (User 2 (PStr ''Bar''))) (Some False) None
        (Some (Some (Revision 2 (PInt 4)))) (Some (PStr ''text'')) (Some False),
      world0)"
  by (simp add: reload_first_def rec_text_def model_defs)

lemma reload_second_value:
  "reload_second =
     (Inr (),
      RevisionObject 2 (PInt 7) (Some (Page 2 (PInt 11))) (Some (PStr ''c''))
        (Some (Datetime 2013 1 1 0 0 0)) (Some (User 2 (PStr ''Bar''))) (Some False) None
        (Some (Some (Revision 2 (PInt 4)))) (Some (PStr ''text'')) (Some True),
      world0)"
  by (simp add: reload_second_def reload_first_value rec_deleted_def model_defs)


lemma deleted_load_value:
  "deleted_load =
     (Inr (),
      RevisionObject 2 (PInt 7) (Some (Page 2 (PInt 11))) (Some (PStr ''c''))
        (Some (Datetime 2013 1 1 0 0 0)) (Some (User 2 (PStr ''Bar''))) (Some False) None
        (Some (Some (Revision 2 (PInt 4)))) None (Some True),
      world0\<lparr>queries := [(2, query_kwargs (Revision 2 (PInt 7)), False)]\<rparr>)"
  by (simp add: deleted_load_def rec_deleted_def model_defs)

lemma text_load_value:
  "text_load =
     (Inr (),
      RevisionObject 2 (PInt 7) (Some (Page 2 (PInt 11))) (Some (PStr ''c''))
        (Some (Datetime 2013 1 1 0 0 0)) (Some (User 2 (PStr ''Bar''))) (Some False) None
        (Some (Some (Revision 2 (PInt 4)))) (Some (PStr ''text'')) (Some False),
      world0\<lparr>queries := [(2, query_kwargs (Revision 2 (PInt 7)), False)]\<rparr>)"
  by (simp add: text_load_def rec_text_def model_defs)

lemma token_load_value:
  "token_load =
     (Inr (),
      RevisionObject 2 (PInt 7) (Some (Page 2 (PInt 11))) (Some (PStr ''c''))
        (Some (Datetime 2013 1 1 0 0 0)) (Some (User 2 (PStr ''Bar''))) (Some False)
        (Some (PStr ''TOK'')) (Some None) (Some (PStr ''text'')) (Some False),
      world0\<lparr>queries := [(2, query_kwargs (Revision 2 (PInt 7)), False)]\<rparr>)"
  by (simp add: token_load_def rec_token_def model_defs)

lemma outcome_snd: "snd (outcome x) = snd x"
  by (cases x) (auto simp: outcome_def split: sum.splits)

lemma access_cached: "attr_set a self \<Longrightarrow> access env a self w = (None, self, w)"
  by (cases a)
     (auto simp: outcome_def rvtoken_def page_def summary_def timestamp_def user_def
        is_minor_def prev_revision_def content_def is_deleted_def decorate_cached)

lemma accesses_cached:
  "\<forall>a\<in>set as. attr_set a self \<Longrightarrow> accesses env as self w = (map (\<lambda>a. None) as, self, w)"
  by (induction as) (simp_all add: access_cached)

lemma access_missing_queries:
  "\<not> attr_set a self \<Longrightarrow>
     queries (snd (snd (access env a self w))) =
       queries w @ [(u_api self, query_kwargs self, False)]"
  by (cases a)
     (simp_all add: outcome_snd rvtoken_def page_def summary_def timestamp_def user_def
        is_minor_def prev_revision_def content_def is_deleted_def decorate_world)

section \<open>The claims\<close>

subsection \<open>C1: rollback without a rollback token\<close>

text \<open>
  The dict display of \<open>rollback\<close> reads \<open>self.rvtoken\<close> before the \<open>try\<close> block is
  entered. Once that read has returned, the token is set, so the read inside the
  \<open>try\<close> block returns it again and the \<open>except\<close> clause cannot run.
\<close>

lemma rvtoken_read_twice:
  assumes "rvtoken env s w = (Inr tok, s', w')"
  shows "rvtoken env s' w' = (Inr tok, s', w')"
proof (cases "u_rvtoken s")
  case None
  with assms show ?thesis
    by (auto simp: rvtoken_def decorate_missing decorate_cached
             split: prod.splits sum.splits option.splits)
next
  case (Some v)
  with assms show ?thesis
    by (simp add: rvtoken_def decorate_cached)
qed

text \<open>
  C1 states that on a Revision whose rollback token is absent,
  \<open>rollback(summary, bot)\<close> raises PermissionsError with the message
  "You do not have the rollback permission" and sends no \<open>api.call\<close>. Evaluated on a
  Revision loaded from a response without \<open>rollbacktoken\<close> (the transport keeps
  returning that response), whether or not NonexistentRevisionError is an AttributeError:
  the read of \<open>self.rvtoken\<close> in the dict display loads again and raises
  NonexistentRevisionError, which leaves \<open>rollback\<close> as it is. No \<open>api.call\<close> is
  sent; the error is not the PermissionsError.
\<close>

theorem rollback_without_token_raises_nonexistent:
  "fst text_load = Inr () \<and> u_rvtoken (fst (snd text_load)) = None \<and>
   rollback (mock_env b [rec_text]) (fst (snd text_load)) (PStr ''undo'') (PBool False)
       (snd (snd text_load)) =
     (Inl (NonexistentRevisionError ''Revision {0!r} does not exist'' (PInt 7)),
      fst (snd text_load),
      world0\<lparr>queries := [(2, query_kwargs (Revision 2 (PInt 7)), False),
                          (2, query_kwargs (Revision 2 (PInt 7)), False)]\<rparr>) \<and>
   calls (snd (snd (rollback (mock_env b [rec_text]) (fst (snd text_load)) (PStr ''undo'')
                      (PBool False) (snd (snd text_load))))) = []"
  by (simp add: text_load_value rollback_def page_def user_def rvtoken_def rec_text_def
        model_defs)

subsection \<open>C2: the rollback request\<close>

text \<open>
  C2: for a loaded Revision that holds a rollback token, whose page has the title \<open>t\<close>
  and whose user has the name \<open>n\<close>, \<open>rollback(summary, bot)\<close> sends exactly one
  \<open>api.call\<close>. Its parameters hold the title under "title", the name under "user", the
  token under "token" and "rollback" under "action"; "summary" is present exactly when
  \<open>summary\<close> is not \<open>None\<close> (an empty string is passed on); "markbot" is 1 exactly
  when \<open>bot\<close> is true; nothing is queried; and what the call returns or raises is the
  result of \<open>rollback\<close>.
\<close>

theorem rollback_request_shape:
  assumes "u_page self = Some p" and "u_user self = Some u" and "u_rvtoken self = Some tok"
    and "page_title env p (collab w) = (Inr t, c1)"
    and "user_name env u c1 = (Inr n, c2)"
  shows "rollback env self summ isbot w =
           (fst (call env (u_api self) (PDict (spec_rollback_params t n tok summ isbot)) c2),
            self,
            w\<lparr>calls := calls w @ [(u_api self, PDict (spec_rollback_params t n tok summ isbot))],
               collab := snd (call env (u_api self)
                                (PDict (spec_rollback_params t n tok summ isbot)) c2)\<rparr>) \<and>
         map_of (spec_rollback_params t n tok summ isbot) ''title'' = Some t \<and>
         map_of (spec_rollback_params t n tok summ isbot) ''user'' = Some n \<and>
         map_of (spec_rollback_params t n tok summ isbot) ''token'' = Some tok \<and>
         map_of (spec_rollback_params t n tok summ isbot) ''action'' = Some (PStr ''rollback'') \<and>
         map_of (spec_rollback_params t n tok summ isbot) ''summary'' =
           (if summ = PNone then None else Some summ) \<and>
         map_of (spec_rollback_params t n tok summ isbot) ''markbot'' =
           (if truthy isbot then Some (PInt 1) else None)"
proof -
  have params: "map_of (spec_rollback_params t n tok summ isbot) ''title'' = Some t"
    "map_of (spec_rollback_params t n tok summ isbot) ''user'' = Some n"
    "map_of (spec_rollback_params t n tok summ isbot) ''token'' = Some tok"
    "map_of (spec_rollback_params t n tok summ isbot) ''action'' = Some (PStr ''rollback'')"
    "map_of (spec_rollback_params t n tok summ isbot) ''summary'' =
       (if summ = PNone then None else Some summ)"
    "map_of (spec_rollback_params t n tok summ isbot) ''markbot'' =
       (if truthy isbot then Some (PInt 1) else None)"
    by (simp_all add: spec_rollback_params_def)
  have run: "rollback env self summ isbot w =
           (fst (call env (u_api self) (PDict (spec_rollback_params t n tok summ isbot)) c2),
            self,
            w\<lparr>calls := calls w @ [(u_api self, PDict (spec_rollback_params t n tok summ isbot))],
               collab := snd (call env (u_api self)
                                (PDict (spec_rollback_params t n tok summ isbot)) c2)\<rparr>)"
    using assms
    by (simp add: rollback_def thread_def in_collab_def send_call_def page_def user_def
          rvtoken_def decorate_cached spec_rollback_params_def Let_def split: prod.splits)
  from run params show ?thesis
    by simp
qed

text \<open>An instance on the mock transport.\<close>

theorem rollback_request_shape_witness:
  "u_page (fst (snd token_load)) = Some (Page 2 (PInt 11)) \<and>
   u_user (fst (snd token_load)) = Some (User 2 (PStr ''Bar'')) \<and>
   u_rvtoken (fst (snd token_load)) = Some (PStr ''TOK'') \<and>
   rollback (mock_env False [rec_token]) (fst (snd token_load)) (PStr ''undo'') (PBool True)
       (snd (snd token_load)) =
     (Inr (PDict [(''rollback'', PDict
        [(''title'', PStr ''Foo''), (''user'', PStr ''Bar''), (''token'', PStr ''TOK''),
         (''action'', PStr ''rollback''), (''summary'', PStr ''undo''), (''markbot'', PInt 1)])]),
      fst (snd token_load),
      (snd (snd token_load))\<lparr>calls := [(2, PDict
        [(''title'', PStr ''Foo''), (''user'', PStr ''Bar''), (''token'', PStr ''TOK''),
         (''action'', PStr ''rollback''), (''summary'', PStr ''undo''), (''markbot'', PInt 1)])],
        collab := ()\<rparr>)"
proof -
  let ?env = "mock_env False [rec_token]"
  let ?s = "fst (snd token_load)"
  let ?w = "snd (snd token_load)"
  have 1: "u_page ?s = Some (Page 2 (PInt 11))"
    and 2: "u_user ?s = Some (User 2 (PStr ''Bar''))"
    and 3: "u_rvtoken ?s = Some (PStr ''TOK'')"
    by (simp_all add: token_load_value)
  have 4: "page_title ?env (Page 2 (PInt 11)) (collab ?w) = (Inr (PStr ''Foo''), ())"
    and 5: "user_name ?env (User 2 (PStr ''Bar'')) () = (Inr (PStr ''Bar''), ())"
    by (simp_all add: mock_env_def)
  from rollback_request_shape [OF 1 2 3 4 5, of "PStr ''undo''" "PBool True"] 1 2 3
  show ?thesis
    by (simp add: spec_rollback_params_def) (simp add: mock_env_def token_load_value world0_def)
qed

subsection \<open>C3: what a load leaves behind\<close>




subsection \<open>C4: accessing a revision that does not exist\<close>

text \<open>
  C4 states that when the load query finds no revision record, every lazy attribute
  raises the same NonexistentRevisionError naming "Revision" and the id, whichever is read
  first. Evaluated on \<open>Revision(api, 999)\<close> for three shapes of "no record": when the
  query yields nothing, every accessor raises StopIteration; when the record has an empty
  \<open>revisions\<close> list, every accessor raises IndexError, except \<open>page\<close>, which after
  the first failed load returns the page; when the record has no \<open>revisions\<close> key,
  \<open>summary\<close> raises KeyError and \<open>page\<close> returns the page. The error of \<open>__load\<close>
  passes through the accessor, and the NonexistentRevisionError of \<open>decorate\<close> is not
  raised.
\<close>

theorem nonexistent_revision_access_raises_load_error:
  "fst (accesses (mock_env b []) all_attrs (Revision 2 (PInt 999)) world0) =
     replicate 9 (Some StopIteration) \<and>
   fst (accesses (mock_env b [rec_empty_revisions]) all_attrs (Revision 2 (PInt 999)) world0) =
     [Some IndexError, None, Some IndexError, Some IndexError, Some IndexError,
      Some IndexError, Some IndexError, Some IndexError, Some IndexError] \<and>
   fst (accesses (mock_env b [rec_no_revisions]) [A_summary, A_page, A_summary]
          (Revision 2 (PInt 999)) world0) =
     [Some (KeyError (PStr ''revisions'')), None, Some (KeyError (PStr ''revisions''))]"
  by (simp add: all_attrs_def rvtoken_def page_def summary_def timestamp_def user_def
        is_minor_def prev_revision_def content_def is_deleted_def rec_empty_revisions_def
        rec_no_revisions_def numeral_eq_Suc model_defs)

subsection \<open>C5: equality\<close>

text \<open>The \<open>revid\<close> accessor never loads: \<open>_revid\<close> is set on every Revision.\<close>

lemma revid_never_loads: "revid env self w = (Inr (u_revid self), self, w)"
  by (simp add: revid_def decorate_cached)

text \<open>
  C5: two Revision objects are equal exactly when they have the same client handle and the
  same revision id, whatever has been loaded into either of them; \<open>__ne__\<close> is the
  negation. Revision ids are integers.
\<close>

theorem revision_equality_by_identity:
  "revision_eq (RevisionObject a (PInt i) p s t u m k r c d)
               (RevisionObject a' (PInt i') p' s' t' u' m' k' r' c' d') = (a = a' \<and> i = i') \<and>
   revision_ne (RevisionObject a (PInt i) p s t u m k r c d)
               (RevisionObject a' (PInt i') p' s' t' u' m' k' r' c' d') = (a \<noteq> a' \<or> i \<noteq> i')"
  by (auto simp: revision_eq_def revision_ne_def)

text \<open>An instance on the mock transport.\<close>

theorem revision_equality_by_identity_witness:
  "revision_eq (RevisionObject 2 (PInt 5) None None None None None None None None None)
               (RevisionObject 2 (PInt 5) (Some (Page 2 (PInt 11))) (Some (PStr ''c''))
                  (Some (Datetime 2013 1 1 0 0 0)) (Some (User 2 (PStr ''Bar''))) (Some False)
                  None (Some None) (Some (PStr ''text'')) (Some False)) \<and>
   revision_ne (RevisionObject 2 (PInt 5) None None None None None None None None None)
               (RevisionObject 2 (PInt 6) None None None None None None None None None) \<and>
   revision_ne (RevisionObject 2 (PInt 5) None None None None None None None None None)
               (RevisionObject 3 (PInt 5) None None None None None None None None None)"
  using revision_equality_by_identity
          [of 2 5 None None None None None None None None None
              2 5 "Some (Page 2 (PInt 11))" "Some (PStr ''c'')" "Some (Datetime 2013 1 1 0 0 0)"
              "Some (User 2 (PStr ''Bar''))" "Some False" None "Some None"
              "Some (PStr ''text'')" "Some False"]
        revision_equality_by_identity
          [of 2 5 None None None None None None None None None
              2 6 None None None None None None None None None]
        revision_equality_by_identity
          [of 2 5 None None None None None None None None None
              3 5 None None None None None None None None None]
  by simp

subsection \<open>C6: deleted revisions\<close>

text \<open>
  C6 as stated speaks of every Revision loaded from a record without \<open>"*"\<close>. A Revision
  that holds the text of an earlier load and is loaded again from such a record gets
  \<open>_is_deleted = True\<close> while \<open>_content\<close> keeps the old text: \<open>content\<close> returns
  that text.
\<close>

theorem reload_stale_content_counterexample:
  "fst reload_first = Inr () \<and> fst reload_second = Inr () \<and>
   revision_record rec_deleted =
     Inr (PDict [(''comment'', PStr ''c''), (''timestamp'', PStr ''2013-01-01T00:00:00Z''),
      (''user'', PStr ''Bar''), (''parentid'', PInt 4)]) \<and>
   getitem (PDict [(''comment'', PStr ''c''), (''timestamp'', PStr ''2013-01-01T00:00:00Z''),
      (''user'', PStr ''Bar''), (''parentid'', PInt 4)]) (PStr ''*'') = Inl (KeyError (PStr ''*'')) \<and>
   u_is_deleted (fst (snd reload_second)) = Some True \<and>
   content (mock_env False [rec_deleted]) (fst (snd reload_second)) (snd (snd reload_second)) =
     (Inr (PStr ''text''), fst (snd reload_second), snd (snd reload_second))"
  by (simp add: reload_first_value reload_second_value content_def decorate_cached
                rec_deleted_def revision_record_def seq_index_def)

text \<open>
  C6, amended: after a successful load from a record that has \<open>"*"\<close>, is_deleted is
  false and content is that text. After a successful load of a Revision that held no
  content, from a record without \<open>"*"\<close>, is_deleted is true and content stays unset;
  reading \<open>content\<close> then loads again, and when that load succeeds without setting the
  content, the read raises NonexistentRevisionError with the message
  "Revision {0!r} does not exist" for the revision id. So for a Revision that held no
  content, is_deleted is true exactly when content is absent.
\<close>

theorem load_is_deleted_iff_content_absent:
  assumes "load_attributes env self res w = (Inr (), self', w')"
    and "load_res env self res w = (Inr rec, w1)"
    and "revision_record rec = Inr r"
  shows "(\<forall>txt. getitem r (PStr ''*'') = Inr txt \<longrightarrow>
            u_is_deleted self' = Some False \<and> u_content self' = Some txt \<and>
            is_deleted env self' w' = (Inr False, self', w') \<and>
            content env self' w' = (Inr txt, self', w')) \<and>
         ((\<exists>e. getitem r (PStr ''*'') = Inl e) \<and> u_content self = None \<longrightarrow>
            u_is_deleted self' = Some True \<and> u_content self' = None \<and>
            is_deleted env self' w' = (Inr True, self', w') \<and>
            (\<forall>s2 w2. load_attributes env self' PNone w' = (Inr (), s2, w2) \<and> u_content s2 = None \<longrightarrow>
               content env self' w' =
                 (Inl (NonexistentRevisionError ''Revision {0!r} does not exist'' (u_revid self)),
                  s2, w2))) \<and>
         (u_content self = None \<longrightarrow> u_is_deleted self' = Some (u_content self' = None))"
proof -
  from load_attributes_Inr [OF assms(1)] assms(2)
  have fields: "load_fields env self rec = (Inr (), self')"
    by auto
  from fields obtain pid r' cmt t un m par where
    "revision_record rec = Inr r'" "self' = assigned self pid cmt t un m r' par"
    by (rule load_fields_InrE)
  with assms(3) have self': "self' = assigned self pid cmt t un m r par"
    by simp
  have del: "u_is_deleted self' =
      (case getitem r (PStr ''*'') of Inr txt \<Rightarrow> Some False | Inl e \<Rightarrow> Some True)"
    and cont: "u_content self' =
      (case getitem r (PStr ''*'') of Inr txt \<Rightarrow> Some txt | Inl e \<Rightarrow> u_content self)"
    and rid: "u_revid self' = u_revid self"
    by (simp_all add: self' assigned_sel)
  have cached_del: "\<And>v. u_is_deleted self' = Some v \<Longrightarrow>
      is_deleted env self' w' = (Inr v, self', w')"
    by (simp add: is_deleted_def decorate_cached)
  have cached_cont: "\<And>v. u_content self' = Some v \<Longrightarrow>
      content env self' w' = (Inr v, self', w')"
    by (simp add: content_def decorate_cached)
  have missing: "\<And>s2 w2. u_content self' = None \<Longrightarrow>
      load_attributes env self' PNone w' = (Inr (), s2, w2) \<Longrightarrow> u_content s2 = None \<Longrightarrow>
      content env self' w' =
        (Inl (NonexistentRevisionError ''Revision {0!r} does not exist'' (u_revid self)), s2, w2)"
  proof -
    fix s2 w2
    assume a: "u_content self' = None" "load_attributes env self' PNone w' = (Inr (), s2, w2)"
      "u_content s2 = None"
    from a(2) obtain rec2 where "load_fields env self' rec2 = (Inr (), s2)"
      by (auto dest: load_attributes_Inr)
    then obtain pid2 r2 cmt2 t2 un2 m2 par2 where
      "s2 = assigned self' pid2 cmt2 t2 un2 m2 r2 par2"
      by (rule load_fields_InrE)
    then have "u_revid s2 = u_revid self'"
      by (simp add: assigned_sel)
    with a rid show "content env self' w' =
        (Inl (NonexistentRevisionError ''Revision {0!r} does not exist'' (u_revid self)), s2, w2)"
      by (simp add: content_def decorate_missing)
  qed
  show ?thesis
    using del cont cached_del cached_cont missing
    by (auto split: sum.splits)
qed

text \<open>An instance on the mock transport.\<close>

theorem load_is_deleted_iff_content_absent_witness:
  "fst deleted_load = Inr () \<and>
   u_is_deleted (fst (snd deleted_load)) = Some True \<and>
   u_content (fst (snd deleted_load)) = None \<and>
   content (mock_env False [rec_deleted]) (fst (snd deleted_load)) (snd (snd deleted_load)) =
     (Inl (NonexistentRevisionError ''Revision {0!r} does not exist'' (PInt 7)),
      fst (snd deleted_load),
      snd (snd deleted_load)
        \<lparr>queries := queries (snd (snd deleted_load)) @
                      [(2, query_kwargs (Revision 2 (PInt 7)), False)]\<rparr>)"
proof -
  let ?env = "mock_env False [rec_deleted]"
  let ?r = "PDict [(''comment'', PStr ''c''), (''timestamp'', PStr ''2013-01-01T00:00:00Z''),
      (''user'', PStr ''Bar''), (''parentid'', PInt 4)]"
  let ?s = "fst (snd deleted_load)"
  let ?w = "snd (snd deleted_load)"
  let ?w2 = "?w\<lparr>queries := queries ?w @ [(2, query_kwargs (Revision 2 (PInt 7)), False)]\<rparr>"
  have 1: "load_attributes ?env (Revision 2 (PInt 7)) PNone world0 = (Inr (), ?s, ?w)"
    by (simp add: deleted_load_def [symmetric] deleted_load_value)
  have 2: "load_res ?env (Revision 2 (PInt 7)) PNone world0 = (Inr rec_deleted, ?w)"
    by (simp add: deleted_load_value rec_deleted_def model_defs)
  have 3: "revision_record rec_deleted = Inr ?r"
    by (simp add: rec_deleted_def model_defs)
  have 4: "\<exists>e. getitem ?r (PStr ''*'') = Inl e"
    by simp
  have 5: "u_content (Revision 2 (PInt 7)) = None"
    by simp
  have 6: "load_attributes ?env ?s PNone ?w = (Inr (), ?s, ?w2) \<and> u_content ?s = None"
    by (simp add: deleted_load_value rec_deleted_def model_defs)
  from load_is_deleted_iff_content_absent [OF 1 2 3] 4 5 6
  have "u_is_deleted ?s = Some True \<and> u_content ?s = None \<and>
        content ?env ?s ?w =
          (Inl (NonexistentRevisionError ''Revision {0!r} does not exist''
                  (u_revid (Revision 2 (PInt 7)))), ?s, ?w2)"
    by blast
  then show ?thesis
    by (simp add: deleted_load_value)
qed

subsection \<open>C7: the previous revision\<close>

text \<open>
  C7: after a successful load whose record has the nonzero parent id \<open>p\<close>,
  \<open>prev_revision\<close> is the unloaded \<open>Revision(api, p)\<close> of the same client handle, and
  reading it sends no query; when the parent id is 0 or null it is \<open>None\<close>. The load
  sends no query for the parent: the parent sends its own query when one of its attributes
  is read.
\<close>

theorem load_prev_revision:
  assumes "load_attributes env self res w = (Inr (), self', w')"
    and "load_res env self res w = (Inr rec, w1)"
    and "revision_record rec = Inr r"
    and "getitem r (PStr ''parentid'') = Inr par"
  shows "(\<forall>p. par = PInt p \<and> p \<noteq> 0 \<longrightarrow>
            u_prev_revision self' = Some (Some (Revision (u_api self) (PInt p))) \<and>
            prev_revision env self' w' =
              (Inr (Some (Revision (u_api self) (PInt p))), self', w') \<and>
            queries (snd (snd (summary env (Revision (u_api self) (PInt p)) w'))) =
              queries w' @ [(u_api self, query_kwargs (Revision (u_api self) (PInt p)), False)]) \<and>
         (par = PInt 0 \<or> par = PNone \<longrightarrow>
            u_prev_revision self' = Some None \<and>
            prev_revision env self' w' = (Inr None, self', w')) \<and>
         queries w' = (if truthy res then queries w
                       else queries w @ [(u_api self, query_kwargs self, False)])"
proof -
  from load_attributes_Inr [OF assms(1)] assms(2)
  have fields: "load_fields env self rec = (Inr (), self')"
    by auto
  from fields obtain pid r' cmt t un m par' where
    "revision_record rec = Inr r'" "getitem r' (PStr ''parentid'') = Inr par'"
    "self' = assigned self pid cmt t un m r' par'"
    by (rule load_fields_InrE)
  with assms(3,4) have "self' = assigned self pid cmt t un m r par"
    by simp
  then have prev: "u_prev_revision self' =
      Some (if truthy par then Some (Revision (u_api self) par) else None)"
    by (simp add: assigned_sel)
  have cached: "\<And>v. u_prev_revision self' = Some v \<Longrightarrow>
      prev_revision env self' w' = (Inr v, self', w')"
    by (simp add: prev_revision_def decorate_cached)
  have own: "\<And>p. queries (snd (snd (summary env (Revision (u_api self) (PInt p)) w'))) =
      queries w' @ [(u_api self, query_kwargs (Revision (u_api self) (PInt p)), False)]"
    by (simp add: summary_def decorate_world)
  have "queries w' = (if truthy res then queries w
                      else queries w @ [(u_api self, query_kwargs self, False)])"
    using load_attributes_world(2) [of env self res w] assms(1) by simp
  with prev cached own show ?thesis
    by auto
qed

text \<open>An instance on the mock transport.\<close>

theorem load_prev_revision_witness:
  "fst text_load = Inr () \<and>
   u_prev_revision (fst (snd text_load)) = Some (Some (Revision 2 (PInt 4))) \<and>
   prev_revision (mock_env False [rec_text]) (fst (snd text_load)) (snd (snd text_load)) =
     (Inr (Some (Revision 2 (PInt 4))), fst (snd text_load), snd (snd text_load)) \<and>
   length (queries (snd (snd text_load))) = 1 \<and>
   length (queries (snd (snd (summary (mock_env False [rec_text]) (Revision 2 (PInt 4))
                                 (snd (snd text_load)))))) = 2"
proof -
  let ?env = "mock_env False [rec_text]"
  let ?r = "PDict [(''comment'', PStr ''c''), (''timestamp'', PStr ''2013-01-01T00:00:00Z''),
      (''user'', PStr ''Bar''), (''parentid'', PInt 4), (''*'', PStr ''text'')]"
  have 1: "load_attributes ?env (Revision 2 (PInt 7)) PNone world0 =
             (Inr (), fst (snd text_load), snd (snd text_load))"
    by (simp add: text_load_def [symmetric] text_load_value)
  have 2: "load_res ?env (Revision 2 (PInt 7)) PNone world0 =
             (Inr rec_text, snd (snd text_load))"
    by (simp add: text_load_value rec_text_def model_defs)
  have 3: "revision_record rec_text = Inr ?r"
    by (simp add: rec_text_def model_defs)
  have 4: "getitem ?r (PStr ''parentid'') = Inr (PInt 4)"
    by simp
  from load_prev_revision [OF 1 2 3 4] show ?thesis
    by (simp add: text_load_value world0_def)
qed

subsection \<open>C8: queries sent by loading and reading\<close>

text \<open>
  C8 as stated says that after one successful load the number of queries stays at 1
  however many fields are read. For a deleted revision the load succeeds with one query
  and leaves \<open>_content\<close> unset, so reading \<open>content\<close> sends a second query.
\<close>

theorem deleted_content_requeries_counterexample:
  "fst deleted_load = Inr () \<and>
   length (queries (snd (snd deleted_load))) = 1 \<and>
   length (queries (snd (snd (content (mock_env False [rec_deleted]) (fst (snd deleted_load))
                                 (snd (snd deleted_load)))))) = 2"
  by (simp add: deleted_load_value content_def decorate_world world0_def)

text \<open>
  C8, amended: a load without a supplied response sends exactly one query. After a
  successful load, page, summary, timestamp, user, is_minor, prev_revision and is_deleted
  are set, and any sequence of reads of attributes that are set returns them and sends
  no query and changes nothing. Reading an attribute that is not set (the content of a
  deleted revision, a rollback token that was not returned) sends one more query.
\<close>

theorem load_once_then_cached_reads:
  "queries (snd (snd (load_attributes env self PNone w))) =
     queries w @ [(u_api self, query_kwargs self, False)] \<and>
   (load_attributes env self res w = (Inr (), self', w') \<longrightarrow>
      attr_set A_page self' \<and> attr_set A_summary self' \<and> attr_set A_timestamp self' \<and>
      attr_set A_user self' \<and> attr_set A_is_minor self' \<and> attr_set A_prev_revision self' \<and>
      attr_set A_is_deleted self' \<and>
      ((\<forall>a\<in>set as. attr_set a self') \<longrightarrow>
         accesses env as self' w' = (map (\<lambda>a. None) as, self', w'))) \<and>
   (\<not> attr_set a s \<longrightarrow>
      queries (snd (snd (access env a s v))) =
        queries v @ [(u_api s, query_kwargs s, False)])"
proof -
  have "attr_set A_page self' \<and> attr_set A_summary self' \<and> attr_set A_timestamp self' \<and>
      attr_set A_user self' \<and> attr_set A_is_minor self' \<and> attr_set A_prev_revision self' \<and>
      attr_set A_is_deleted self'"
    if "load_attributes env self res w = (Inr (), self', w')"
  proof -
    from that obtain rec where "load_fields env self rec = (Inr (), self')"
      by (auto dest: load_attributes_Inr)
    then obtain pid r cmt t un m par where "self' = assigned self pid cmt t un m r par"
      by (auto elim: load_fields_InrE)
    then show ?thesis
      by (simp add: assigned_sel split: sum.split)
  qed
  then show ?thesis
    by (simp add: load_attributes_world accesses_cached access_missing_queries)
qed

text \<open>An instance on the mock transport.\<close>

theorem load_once_then_cached_reads_witness:
  "queries (snd (snd text_load)) = queries world0 @ [(2, query_kwargs (Revision 2 (PInt 7)), False)] \<and>
   fst text_load = Inr () \<and>
   attr_set A_page (fst (snd text_load)) \<and> attr_set A_content (fst (snd text_load)) \<and>
   attr_set A_summary (fst (snd text_load)) \<and> attr_set A_is_deleted (fst (snd text_load)) \<and>
   accesses (mock_env False [rec_text]) [A_page, A_content, A_summary, A_page, A_is_deleted]
       (fst (snd text_load)) (snd (snd text_load)) =
     ([None, None, None, None, None], fst (snd text_load), snd (snd text_load)) \<and>
   \<not> attr_set A_rvtoken (fst (snd text_load)) \<and>
   length (queries (snd (snd (access (mock_env False [rec_text]) A_rvtoken (fst (snd text_load))
                                 (snd (snd text_load)))))) = 2"
proof -
  let ?env = "mock_env False [rec_text]"
  let ?s = "fst (snd text_load)"
  let ?w = "snd (snd text_load)"
  let ?as = "[A_page, A_content, A_summary, A_page, A_is_deleted]"
  have 1: "load_attributes ?env (Revision 2 (PInt 7)) PNone world0 = (Inr (), ?s, ?w)"
    by (simp add: text_load_def [symmetric] text_load_value)
  have 2: "\<forall>a\<in>set ?as. attr_set a ?s"
    by (simp add: text_load_value)
  have 3: "\<not> attr_set A_rvtoken ?s"
    by (simp add: text_load_value)
  from load_once_then_cached_reads
         [of ?env "Revision 2 (PInt 7)" world0 PNone ?s ?w ?as A_rvtoken ?s ?w] 1 2 3
  have "queries (snd (snd (load_attributes ?env (Revision 2 (PInt 7)) PNone world0))) =
          queries world0 @ [(2, query_kwargs (Revision 2 (PInt 7)), False)] \<and>
        accesses ?env ?as ?s ?w = (map (\<lambda>a. None) ?as, ?s, ?w) \<and>
        queries (snd (snd (access ?env A_rvtoken ?s ?w))) =
          queries ?w @ [(u_api ?s, query_kwargs ?s, False)]"
    by simp
  with 2 3 show ?thesis
    by (simp add: text_load_def [symmetric]) (simp add: text_load_value world0_def)
qed

subsection \<open>C9: restore\<close>

text \<open>
  C9 as stated says that \<open>restore\<close> on every Revision performs no transport call
  besides the page edit. On a Revision that is not loaded, reading \<open>self.page\<close> loads
  it: \<open>restore\<close> sends the load query before the edit.
\<close>

theorem restore_unloaded_queries_counterexample:
  "restore (mock_env False [rec_text]) (Revision 2 (PInt 7)) (PStr ''s'') (PBool False)
     (PBool True) (PBool False) world0 =
   (Inr (PDict [(''edit'', PStr ''text'')]), fst (snd text_load),
    world0\<lparr>queries := [(2, query_kwargs (Revision 2 (PInt 7)), False)]\<rparr>)"
  by (simp add: restore_def page_def content_def text_load_value rec_text_def model_defs)

text \<open>
  C9, amended: on a Revision whose page and content are set, \<open>restore\<close> returns exactly
  what the page's edit of that content with the given arguments returns or raises, and
  sends no query and no \<open>api.call\<close> of its own. In general \<open>restore\<close> reads
  \<open>self.page\<close>, then \<open>self.content\<close> (each read loads when the attribute is not
  set), calls the edit once with the values read and returns its result; an exception of
  either read is the result and the edit is not called. \<open>restore\<close> never sends an
  \<open>api.call\<close>.
\<close>

theorem restore_delegates_to_page_edit:
  "(u_page self = Some p \<and> u_content self = Some txt \<longrightarrow>
      restore env self summ minor isbot force w =
        (fst (page_edit env p txt summ minor isbot force (collab w)), self,
         w\<lparr>collab := snd (page_edit env p txt summ minor isbot force (collab w))\<rparr>)) \<and>
   (page env self w = (Inr p, s1, w1) \<and> content env s1 w1 = (Inr txt, s2, w2) \<longrightarrow>
      restore env self summ minor isbot force w =
        (fst (page_edit env p txt summ minor isbot force (collab w2)), s2,
         w2\<lparr>collab := snd (page_edit env p txt summ minor isbot force (collab w2))\<rparr>)) \<and>
   (page env self w = (Inl e, s1, w1) \<longrightarrow>
      restore env self summ minor isbot force w = (Inl e, s1, w1)) \<and>
   (page env self w = (Inr p, s1, w1) \<and> content env s1 w1 = (Inl e, s2, w2) \<longrightarrow>
      restore env self summ minor isbot force w = (Inl e, s2, w2)) \<and>
   calls (snd (snd (restore env self summ minor isbot force w))) = calls w"
proof -
  have calls: "calls (snd (snd (restore env self summ minor isbot force w))) = calls w"
  proof (cases "page env self w")
    case (fields r1 t1 v1)
    then have c1: "calls v1 = calls w"
      using decorate_world(1) [of env u_page self w] by (simp add: page_def)
    show ?thesis
    proof (cases r1)
      case (Inl e1)
      with fields c1 show ?thesis
        by (simp add: restore_def thread_def)
    next
      case (Inr p1)
      obtain r2 t2 v2 where 2: "content env t1 v1 = (r2, t2, v2)"
        by (cases "content env t1 v1")
      then have "calls v2 = calls v1"
        using decorate_world(1) [of env u_content t1 v1] by (simp add: content_def)
      with fields Inr 2 c1 show ?thesis
        by (cases r2) (simp_all add: restore_def thread_def in_collab_def split: prod.splits)
    qed
  qed
  have cached: "u_page self = Some p \<and> u_content self = Some txt \<longrightarrow>
      restore env self summ minor isbot force w =
        (fst (page_edit env p txt summ minor isbot force (collab w)), self,
         w\<lparr>collab := snd (page_edit env p txt summ minor isbot force (collab w))\<rparr>)"
    by (simp add: restore_def thread_def in_collab_def page_def content_def decorate_cached
             split: prod.splits)
  have rest: "(page env self w = (Inr p, s1, w1) \<and> content env s1 w1 = (Inr txt, s2, w2) \<longrightarrow>
      restore env self summ minor isbot force w =
        (fst (page_edit env p txt summ minor isbot force (collab w2)), s2,
         w2\<lparr>collab := snd (page_edit env p txt summ minor isbot force (collab w2))\<rparr>)) \<and>
   (page env self w = (Inl e, s1, w1) \<longrightarrow>
      restore env self summ minor isbot force w = (Inl e, s1, w1)) \<and>
   (page env self w = (Inr p, s1, w1) \<and> content env s1 w1 = (Inl e, s2, w2) \<longrightarrow>
      restore env self summ minor isbot force w = (Inl e, s2, w2))"
    by (simp add: restore_def thread_def in_collab_def split: prod.splits)
  from calls cached rest show ?thesis
    by blast
qed

text \<open>An instance on the mock transport.\<close>

theorem restore_delegates_to_page_edit_witness:
  "u_page (fst (snd text_load)) = Some (Page 2 (PInt 11)) \<and>
   u_content (fst (snd text_load)) = Some (PStr ''text'') \<and>
   restore (mock_env False [rec_text]) (fst (snd text_load)) (PStr ''s'') (PBool False)
       (PBool True) (PBool False) (snd (snd text_load)) =
     (Inr (PDict [(''edit'', PStr ''text'')]), fst (snd text_load),
      (snd (snd text_load))\<lparr>collab := ()\<rparr>)"
proof -
  let ?env = "mock_env False [rec_text]"
  let ?s = "fst (snd text_load)"
  let ?w = "snd (snd text_load)"
  have 1: "u_page ?s = Some (Page 2 (PInt 11)) \<and> u_content ?s = Some (PStr ''text'')"
    by (simp add: text_load_value)
  from restore_delegates_to_page_edit
         [of ?s "Page 2 (PInt 11)" "PStr ''text''" ?env "PStr ''s''" "PBool False" "PBool True"
             "PBool False" ?w] 1
  have "restore ?env ?s (PStr ''s'') (PBool False) (PBool True) (PBool False) ?w =
        (fst (page_edit ?env (Page 2 (PInt 11)) (PStr ''text'') (PStr ''s'') (PBool False)
                (PBool True) (PBool False) (collab ?w)), ?s,
         ?w\<lparr>collab := snd (page_edit ?env (Page 2 (PInt 11)) (PStr ''text'') (PStr ''s'')
                (PBool False) (PBool True) (PBool False) (collab ?w))\<rparr>)"
    by blast
  with 1 show ?thesis
    by (simp add: mock_env_def)
qed

subsection \<open>C10: a falsy supplied response\<close>

text \<open>
  C10: when the response given to \<open>load_attributes\<close> is falsy (an empty mapping, for
  example), the load does what it does without an argument and sends the query; when it
  is truthy, no query is sent.
\<close>

theorem falsy_response_still_queries:
  "(\<not> truthy res \<longrightarrow>
      load_attributes env self res w = load_attributes env self PNone w \<and>
      queries (snd (snd (load_attributes env self res w))) =
        queries w @ [(u_api self, query_kwargs self, False)]) \<and>
   (truthy res \<longrightarrow> queries (snd (snd (load_attributes env self res w))) = queries w)"
  using load_attributes_falsy [of res env self w]
  by (simp add: load_attributes_world)

text \<open>An instance on the mock transport.\<close>

theorem falsy_response_still_queries_witness:
  "\<not> truthy (PDict []) \<and>
   load_attributes (mock_env False [rec_text]) (Revision 2 (PInt 7)) (PDict []) world0 =
     load_attributes (mock_env False [rec_text]) (Revision 2 (PInt 7)) PNone world0 \<and>
   queries (snd (snd (load_attributes (mock_env False [rec_text]) (Revision 2 (PInt 7))
                        (PDict []) world0))) =
     queries world0 @ [(u_api (Revision 2 (PInt 7)), query_kwargs (Revision 2 (PInt 7)), False)] \<and>
   truthy rec_text \<and>
   queries (snd (snd (load_attributes (mock_env False [rec_text]) (Revision 2 (PInt 7))
                        rec_text world0))) = queries world0"
proof -
  have 1: "\<not> truthy (PDict [])"
    by simp
  have 2: "truthy rec_text"
    by (simp add: rec_text_def)
  show ?thesis
    using 1 2
      falsy_response_still_queries
        [of "PDict []" "mock_env False [rec_text]" "Revision 2 (PInt 7)" world0]
      falsy_response_still_queries
        [of rec_text "mock_env False [rec_text]" "Revision 2 (PInt 7)" world0]
    by blast
qed

end
